theory Spec2Isabelle
  imports Complex_Main "HOL-Library.Char_ord" "HOL-Library.List_Lexorder"
    "HOL-Library.Product_Lexorder" "HOL-Library.Multiset"
begin

section \<open>Python strings\<close>

text \<open>
  Strings are lists of characters, compared by code point as Python compares them; a
  character is a code point below 256. White space is as Python has it on these code
  points. Letters are the ASCII letters: a character above 127 has no case here.
\<close>

definition isspace :: "char \<Rightarrow> bool" where
  \<comment> \<open>\<open>str.isspace\<close> on one character: tab, newline, VT, FF, CR, FS, GS, RS, US, space, NEL, NBSP\<close>
  "isspace c =
     (let n = (of_char c :: nat) in (9 \<le> n \<and> n \<le> 13) \<or> (28 \<le> n \<and> n \<le> 32) \<or> n = 133 \<or> n = 160)"

definition isupper :: "char \<Rightarrow> bool" where
  "isupper c = (CHR ''A'' \<le> c \<and> c \<le> CHR ''Z'')"

definition islower :: "char \<Rightarrow> bool" where
  "islower c = (CHR ''a'' \<le> c \<and> c \<le> CHR ''z'')"

definition isdigit :: "char \<Rightarrow> bool" where
  "isdigit c = (CHR ''0'' \<le> c \<and> c \<le> CHR ''9'')"

definition upper_char :: "char \<Rightarrow> char" where
  "upper_char c = (if islower c then char_of (of_char c - (32::nat)) else c)"

definition lower_char :: "char \<Rightarrow> char" where
  "lower_char c = (if isupper c then char_of (of_char c + (32::nat)) else c)"

definition upper :: "string \<Rightarrow> string" where
  "upper s = map upper_char s"

definition lower :: "string \<Rightarrow> string" where
  "lower s = map lower_char s"

definition strip :: "string \<Rightarrow> string" where
  \<comment> \<open>\<open>s.strip()\<close>: leading and trailing white space removed\<close>
  "strip s = rev (dropWhile isspace (rev (dropWhile isspace s)))"

definition endswith :: "string \<Rightarrow> string \<Rightarrow> bool" where
  "endswith s suffix = (length suffix \<le> length s \<and> drop (length s - length suffix) s = suffix)"

definition remove_char :: "char \<Rightarrow> string \<Rightarrow> string" where
  \<comment> \<open>\<open>s.replace(c, '')\<close> for a one-character \<open>c\<close>\<close>
  "remove_char c s = filter (\<lambda>x. x \<noteq> c) s"

fun title_from :: "bool \<Rightarrow> string \<Rightarrow> string" where
  \<comment> \<open>\<open>s.title()\<close>; the flag says whether the character before was a letter\<close>
  "title_from prev_cased [] = []"
| "title_from prev_cased (c # cs) =
     (if isupper c \<or> islower c
      then (if prev_cased then lower_char c else upper_char c) # title_from True cs
      else c # title_from False cs)"

definition title :: "string \<Rightarrow> string" where
  "title s = title_from False s"

fun split :: "char \<Rightarrow> string \<Rightarrow> string list" where
  \<comment> \<open>\<open>s.split(sep)\<close> for a one-character separator: never an empty list\<close>
  "split sep [] = [[]]"
| "split sep (c # cs) =
     (if c = sep then [] # split sep cs
      else (case split sep cs of [] \<Rightarrow> [[c]] | p # ps \<Rightarrow> (c # p) # ps))"

section \<open>Python floats\<close>

text \<open>
  A float is a finite number, an infinity or NaN. Finite values are exact rationals:
  the rounding of binary64, and its overflow to an infinity, are not part of the model.
\<close>

datatype pyfloat = Fin rat | PInf | NInf | FNaN

fun fneg :: "pyfloat \<Rightarrow> pyfloat" where
  "fneg (Fin r) = Fin (- r)"
| "fneg PInf = NInf"
| "fneg NInf = PInf"
| "fneg FNaN = FNaN"

fun fmul :: "pyfloat \<Rightarrow> rat \<Rightarrow> pyfloat" where
  \<comment> \<open>the product with a positive finite constant\<close>
  "fmul (Fin r) k = Fin (r * k)"
| "fmul x k = x"

definition digit_val :: "char \<Rightarrow> nat" where
  "digit_val c = of_char c - 48"

fun digits_rest :: "string \<Rightarrow> nat list \<times> string" where
  \<comment> \<open>after a digit: more digits, each with at most one underscore before it\<close>
  "digits_rest [] = ([], [])"
| "digits_rest [c] = (if isdigit c then ([digit_val c], []) else ([], [c]))"
| "digits_rest (c # d # cs) =
     (if isdigit c then (case digits_rest (d # cs) of (ds, r) \<Rightarrow> (digit_val c # ds, r))
      else if c = CHR ''_'' \<and> isdigit d then (case digits_rest cs of (ds, r) \<Rightarrow> (digit_val d # ds, r))
      else ([], c # d # cs))"

fun digitpart :: "string \<Rightarrow> (nat list \<times> string) option" where
  \<comment> \<open>\<open>digitpart ::= digit (["_"] digit)*\<close>, with what follows it\<close>
  "digitpart [] = None"
| "digitpart (c # cs) =
     (if isdigit c then (case digits_rest cs of (ds, r) \<Rightarrow> Some (digit_val c # ds, r)) else None)"

definition number :: "string \<Rightarrow> (nat list \<times> nat list \<times> string) option" where
  \<comment> \<open>\<open>number ::= [digitpart] "." digitpart | digitpart ["."]\<close>: integer digits, fraction digits, rest\<close>
  "number s =
     (case digitpart s of
        Some (ip, r) \<Rightarrow>
          (case r of
             [] \<Rightarrow> Some (ip, [], [])
           | c # r' \<Rightarrow>
               if c = CHR ''.'' then
                 (case digitpart r' of Some (fp, r'') \<Rightarrow> Some (ip, fp, r'') | None \<Rightarrow> Some (ip, [], r'))
               else Some (ip, [], r))
      | None \<Rightarrow>
          (case s of
             [] \<Rightarrow> None
           | c # r' \<Rightarrow>
               if c = CHR ''.'' then
                 (case digitpart r' of Some (fp, r'') \<Rightarrow> Some ([], fp, r'') | None \<Rightarrow> None)
               else None))"

definition exponent :: "string \<Rightarrow> int option" where
  \<comment> \<open>\<open>[("e" | "E") ["+" | "-"] digitpart]\<close> up to the end of the string\<close>
  "exponent s =
     (case s of
        [] \<Rightarrow> Some 0
      | c # r \<Rightarrow>
          if c = CHR ''e'' \<or> c = CHR ''E'' then
            (let (neg, r') = (case r of
                                [] \<Rightarrow> (False, r)
                              | x # xs \<Rightarrow> if x = CHR ''-'' then (True, xs)
                                          else if x = CHR ''+'' then (False, xs) else (False, r))
             in case digitpart r' of
                  Some (ds, []) \<Rightarrow>
                    (let e = int (foldl (\<lambda>a d. 10 * a + d) 0 ds) in Some (if neg then - e else e))
                | _ \<Rightarrow> None)
          else None)"

definition scale10 :: "nat \<Rightarrow> int \<Rightarrow> rat" where
  "scale10 m e = (if 0 \<le> e then of_nat m * 10 ^ nat e else of_nat m / 10 ^ nat (- e))"

definition absfloatvalue :: "string \<Rightarrow> pyfloat option" where
  "absfloatvalue s =
     (if lower s = ''inf'' \<or> lower s = ''infinity'' then Some PInf
      else if lower s = ''nan'' then Some FNaN
      else (case number s of
              None \<Rightarrow> None
            | Some (ip, fp, r) \<Rightarrow>
                (case exponent r of
                   None \<Rightarrow> None
                 | Some e \<Rightarrow>
                     Some (Fin (scale10 (foldl (\<lambda>a d. 10 * a + d) 0 (ip @ fp)) (e - int (length fp)))))))"

definition float_space :: "char \<Rightarrow> bool" where
  \<comment> \<open>what \<open>float\<close> skips around a number: tab, newline, VT, FF, CR and space, and the white
      space above 127 (NEL, NBSP), which it reads as a space; not FS, GS, RS, US\<close>
  "float_space c = (let n = (of_char c :: nat) in (9 \<le> n \<and> n \<le> 13) \<or> n = 32 \<or> n = 133 \<or> n = 160)"

definition float_strip :: "string \<Rightarrow> string" where
  "float_strip s = rev (dropWhile float_space (rev (dropWhile float_space s)))"

definition float :: "string \<Rightarrow> pyfloat option" where
  \<comment> \<open>\<open>float(s)\<close> on a string; \<open>None\<close> is the ValueError\<close>
  "float s =
     (case float_strip s of
        [] \<Rightarrow> None
      | c # cs \<Rightarrow>
          if c = CHR ''-'' then map_option fneg (absfloatvalue cs)
          else if c = CHR ''+'' then absfloatvalue cs
          else absfloatvalue (c # cs))"

section \<open>Data frames\<close>

text \<open>
  A data frame is a list of rows. The three scripts give the columns \<open>Date\<close>, \<open>Amount\<close> and
  \<open>YearMonth\<close> different types as they go, so the row type leaves them open. A text cell is
  \<open>None\<close> when it is missing (NaN).
\<close>

record date =
  year :: nat
  month :: nat
  day :: nat

record ('d, 'a, 'p) row =
  Date :: 'd
  Startup :: "string option"
  Industry :: "string option"
  Location :: "string option"
  Amount :: 'a
  Type :: "string option"
  YearMonth :: 'p
  Investor :: "string option"

section \<open>The cleaning script\<close>

text \<open>
  \<open>read_csv\<close> gives a float NaN for a missing cell and the text of the cell otherwise; a cell
  of a numeric column is represented by the text \<open>str\<close> gives for it.
\<close>

datatype cell = NaN | Str string

fun str :: "cell \<Rightarrow> string" where
  "str NaN = ''nan''"
| "str (Str s) = s"

definition clean_amount :: "cell \<Rightarrow> pyfloat option" where
  \<comment> \<open>\<open>None\<close> is \<open>pd.NA\<close>, returned by the \<open>except\<close> branch when \<open>float\<close> raises\<close>
  "clean_amount val =
     (let s = remove_char CHR ''$'' (remove_char CHR '','' (str val)) in
      if endswith (upper s) ''M''
      then (case float (butlast s) of None \<Rightarrow> None | Some x \<Rightarrow> Some (fmul x 1000000))
      else (case float s of None \<Rightarrow> None | Some x \<Rightarrow> Some x))"

text \<open>
  \<open>main\<close> of the cleaning script, on the frame that \<open>read_csv\<close> returns. Rows carry their index
  label, which \<open>dropna\<close> keeps. \<open>pd.to_datetime(..., errors='coerce', dayfirst=True)\<close> is library
  code: it is a parameter \<open>to_datetime\<close>, which gives for a column and a position the date read
  there, \<open>None\<close> for NaT. Columns other than the named ones are passed through untouched and
  are left out.
\<close>

type_synonym raw_row = "(cell, cell, unit) row"
type_synonym parsed_row = "(date option, pyfloat option, unit) row"
type_synonym clean_row = "(date option, pyfloat option, (nat \<times> nat) option) row"

definition parse_columns :: "(cell list \<Rightarrow> nat \<Rightarrow> date option) \<Rightarrow> raw_row list \<Rightarrow> (nat \<times> parsed_row) list" where
  "parse_columns to_datetime df =
     map (\<lambda>(i, r). (i, \<lparr>Date = to_datetime (map Date df) i, Startup = Startup r, Industry = Industry r,
                           Location = Location r, Amount = clean_amount (Amount r), Type = Type r,
                           YearMonth = (), Investor = Investor r\<rparr>))
       (enumerate 0 df)"

definition isna_amount :: "pyfloat option \<Rightarrow> bool" where
  "isna_amount a = (a = None \<or> a = Some FNaN)"

definition dropna :: "(nat \<times> parsed_row) list \<Rightarrow> (nat \<times> parsed_row) list" where
  "dropna df =
     filter (\<lambda>(i, r). Date r \<noteq> None \<and> Startup r \<noteq> None \<and> Industry r \<noteq> None \<and> Location r \<noteq> None
                       \<and> \<not> isna_amount (Amount r)) df"

definition replace_value :: "string \<Rightarrow> string \<Rightarrow> string \<Rightarrow> string" where
  "replace_value old new v = (if v = old then new else v)"

definition standardize :: "parsed_row \<Rightarrow> parsed_row" where
  "standardize r =
     r\<lparr>Industry := map_option (title \<circ> strip) (Industry r),
       Type := map_option (title \<circ> replace_value ''Unknown'' ''Other'') (Type r)\<rparr>"

definition to_period :: "date \<Rightarrow> nat \<times> nat" where
  "to_period d = (year d, month d)"

definition add_yearmonth :: "parsed_row \<Rightarrow> clean_row" where
  "add_yearmonth r =
     \<lparr>Date = Date r, Startup = Startup r, Industry = Industry r, Location = Location r,
      Amount = Amount r, Type = Type r, YearMonth = map_option to_period (Date r),
      Investor = Investor r\<rparr>"

definition main_clean :: "(cell list \<Rightarrow> nat \<Rightarrow> date option) \<Rightarrow> raw_row list \<Rightarrow> (nat \<times> clean_row) list" where
  "main_clean to_datetime df =
     map (\<lambda>(i, r). (i, add_yearmonth (standardize r))) (dropna (parse_columns to_datetime df))"

text \<open>
  A date parser and a raw row for the examples. The parser reads the ISO token
  \<open>2020-01-05\<close> as 5 January 2020 and nothing else.
\<close>

definition to_datetime_iso :: "cell list \<Rightarrow> nat \<Rightarrow> date option" where
  "to_datetime_iso col i =
     (if i < length col \<and> col ! i = Str ''2020-01-05'' then Some \<lparr>year = 2020, month = 1, day = 5\<rparr> else None)"

definition raw_example :: "string \<Rightarrow> string \<Rightarrow> raw_row" where
  "raw_example ind amt =
     \<lparr>Date = Str ''2020-01-05'', Startup = Some ''Acme'', Industry = Some ind, Location = Some ''Pune'',
      Amount = Str amt, Type = Some ''Unknown'', YearMonth = (), Investor = None\<rparr>"

section \<open>The analysis script\<close>

type_synonym csv_row = "(date option, rat option, string option) row"


fun notna :: "'a option list \<Rightarrow> 'a list" where
  "notna [] = []"
| "notna (None # xs) = notna xs"
| "notna (Some x # xs) = x # notna xs"

fun nansum :: "rat option list \<Rightarrow> rat" where
  "nansum [] = 0"
| "nansum (None # vs) = nansum vs"
| "nansum (Some v # vs) = v + nansum vs"

definition group :: "('k option \<times> 'v) list \<Rightarrow> 'k \<Rightarrow> 'v list" where
  "group kvs k = map snd (filter (\<lambda>kv. fst kv = Some k) kvs)"

definition group_keys :: "('k::linorder option \<times> 'v) list \<Rightarrow> 'k list" where
  "group_keys kvs = sort (remdups (notna (map fst kvs)))"

definition groupby_sum :: "('k::linorder option \<times> rat option) list \<Rightarrow> ('k \<times> rat) list" where
  "groupby_sum kvs = map (\<lambda>k. (k, nansum (group kvs k))) (group_keys kvs)"

fun unique :: "'a list \<Rightarrow> 'a list" where
  "unique [] = []"
| "unique (x # xs) = x # filter (\<lambda>y. y \<noteq> x) (unique xs)"

fun insert_desc :: "'k \<times> 'v::linorder \<Rightarrow> ('k \<times> 'v) list \<Rightarrow> ('k \<times> 'v) list" where
  "insert_desc x [] = [x]"
| "insert_desc x (y # ys) = (if snd y \<le> snd x then x # y # ys else y # insert_desc x ys)"

fun sort_desc :: "('k \<times> 'v::linorder) list \<Rightarrow> ('k \<times> 'v) list" where
  "sort_desc [] = []"
| "sort_desc (x # xs) = insert_desc x (sort_desc xs)"

definition nlargest :: "nat \<Rightarrow> ('k \<times> 'v::linorder) list \<Rightarrow> ('k \<times> 'v) list" where
  "nlargest n s = take n (sort_desc s)"

definition value_counts :: "'k option list \<Rightarrow> ('k \<times> nat) list" where
  "value_counts col = (let ks = notna col in sort_desc (map (\<lambda>k. (k, count_list ks k)) (unique ks)))"


definition by_ind :: "csv_row list \<Rightarrow> (string \<times> rat) list" where
  "by_ind df = nlargest 10 (groupby_sum (map (\<lambda>r. (Industry r, Amount r)) df))"

definition top_startups :: "csv_row list \<Rightarrow> (string \<times> rat) list" where
  "top_startups df = nlargest 10 (groupby_sum (map (\<lambda>r. (Startup r, Amount r)) df))"

definition by_type :: "csv_row list \<Rightarrow> (string \<times> nat) list" where
  "by_type df = value_counts (map Type df)"

definition by_loc :: "csv_row list \<Rightarrow> (string \<times> nat) list" where
  "by_loc df = nlargest 10 (value_counts (map Location df))"

definition explode :: "('a list option \<times> 'b) list \<Rightarrow> ('a option \<times> 'b) list" where
  "explode xs =
     concat (map (\<lambda>(l, b). case l of None \<Rightarrow> [(None, b)] | Some [] \<Rightarrow> [(None, b)]
                            | Some (p # ps) \<Rightarrow> map (\<lambda>x. (Some x, b)) (p # ps)) xs)"

definition df_in :: "csv_row list \<Rightarrow> (string option \<times> rat option) list" where
  "df_in df =
     map (\<lambda>(n, a). (map_option strip n, a))
       (explode (map (\<lambda>r. (map_option (split CHR '','') (Investor r), Amount r)) df))"

definition inv_funding_sum :: "csv_row list \<Rightarrow> (string \<times> rat) list" where
  "inv_funding_sum df = groupby_sum (df_in df)"

definition inv_funding :: "csv_row list \<Rightarrow> (string \<times> rat) list" where
  "inv_funding df = nlargest 10 (inv_funding_sum df)"

definition inv_rounds :: "csv_row list \<Rightarrow> (string \<times> nat) list" where
  "inv_rounds df = nlargest 10 (value_counts (map fst (df_in df)))"


text \<open>Rows of a cleaned file for the examples.\<close>

definition csv_example :: "string \<Rightarrow> rat \<Rightarrow> string option \<Rightarrow> csv_row" where
  "csv_example ind a iv =
     \<lparr>Date = Some \<lparr>year = 2020, month = 1, day = 5\<rparr>, Startup = Some ''Acme'', Industry = Some ind,
      Location = Some ''Pune'', Amount = Some a, Type = Some ''Seed'', YearMonth = Some ''2020-01'',
      Investor = iv\<rparr>"

definition bac_example :: "csv_row list" where
  "bac_example = [csv_example ''B'' 100 None, csv_example ''A'' 100 None, csv_example ''C'' 50 None]"





section \<open>The dashboard script\<close>

text \<open>
  The start of the dashboard script, up to its required-columns check, on the frame that
  \<open>read_csv\<close> returns: a list of named columns of equal length. \<open>pd.to_datetime\<close> and
  \<open>pd.to_numeric\<close> with \<open>errors='coerce'\<close> are library code and are parameters. The result is
  the row processing done so far and either the failure that ended the run (a \<open>KeyError\<close>,
  or \<open>st.error\<close> followed by \<open>st.stop\<close>) or the frame the dashboard goes on with.
\<close>

datatype val = Missing | Text string | Stamp date | Number pyfloat

type_synonym frame = "(string \<times> val list) list"

datatype step = ParseDates | CoerceAmounts | DropRows

datatype failure = KeyError string | Stop string

definition isna :: "val \<Rightarrow> bool" where
  "isna v = (v = Missing \<or> v = Number FNaN)"

definition assign :: "string \<Rightarrow> val list \<Rightarrow> frame \<Rightarrow> frame" where
  "assign name col df =
     (if name \<in> set (map fst df) then map (\<lambda>(n, c). if n = name then (n, col) else (n, c)) df
      else df @ [(name, col)])"

definition select :: "bool list \<Rightarrow> val list \<Rightarrow> val list" where
  "select keep col = map fst (filter snd (zip col keep))"

definition required_cols :: "string list" where
  "required_cols = [''Date'', ''Startup'', ''Industry'', ''Location'', ''Amount'', ''Type'', ''YearMonth'']"

definition app_load ::
  "(val list \<Rightarrow> nat \<Rightarrow> date option) \<Rightarrow> (val \<Rightarrow> pyfloat option) \<Rightarrow> frame \<Rightarrow> step list \<times> (failure + frame)" where
  "app_load to_datetime to_numeric df =
     (case map_of df ''Date'' of
        None \<Rightarrow> ([], Inl (KeyError ''Date''))
      | Some col \<Rightarrow>
          (let dates = map (\<lambda>i. case to_datetime col i of None \<Rightarrow> Missing | Some d \<Rightarrow> Stamp d) [0..<length col];
               df1 = assign ''Date'' dates df
           in if list_all isna dates
              then ([ParseDates], Inl (Stop ''Could not parse any dates''))
              else (case map_of df1 ''Amount'' of
                      None \<Rightarrow> ([ParseDates], Inl (KeyError ''Amount''))
                    | Some acol \<Rightarrow>
                        (let amounts = map (\<lambda>v. case to_numeric v of None \<Rightarrow> Missing | Some x \<Rightarrow> Number x) acol;
                             df2 = assign ''Amount'' amounts df1;
                             keep = map2 (\<lambda>d a. \<not> isna d \<and> \<not> isna a) dates amounts;
                             df3 = map (\<lambda>(n, c). (n, select keep c)) df2
                         in if \<not> set required_cols \<subseteq> set (map fst df3)
                            then ([ParseDates, CoerceAmounts, DropRows], Inl (Stop ''CSV must contain columns''))
                            else ([ParseDates, CoerceAmounts, DropRows], Inr df3)))))"

text \<open>
  Library functions and an uploaded frame for the examples: the date parser reads the ISO
  token \<open>2020-01-05\<close> and nothing else, the coercion keeps a number and gives NaN for
  anything else. The frame has no \<open>Startup\<close> column.
\<close>

definition to_datetime_example :: "val list \<Rightarrow> nat \<Rightarrow> date option" where
  "to_datetime_example col i =
     (if i < length col \<and> col ! i = Text ''2020-01-05'' then Some \<lparr>year = 2020, month = 1, day = 5\<rparr> else None)"

definition to_numeric_example :: "val \<Rightarrow> pyfloat option" where
  "to_numeric_example v = (case v of Number x \<Rightarrow> Some x | _ \<Rightarrow> None)"

definition upload_example :: frame where
  "upload_example =
     [(''Date'', [Text ''2020-01-05'', Text ''n/a'']), (''Industry'', [Text ''Fintech'', Text ''Health'']),
      (''Location'', [Text ''Pune'', Text ''Delhi'']), (''Amount'', [Number (Fin 100), Number (Fin 7)]),
      (''Type'', [Text ''Seed'', Text ''Seed'']), (''YearMonth'', [Text ''2020-01'', Text ''2020-01''])]"

section \<open>Properties of tables\<close>

text \<open>
  A table of at most \<open>n\<close> entries over the keys \<open>K\<close>: as many entries as there are keys up to
  \<open>n\<close>, no key twice, all keys when there are at most \<open>n\<close>, the metric descending. In
  \<open>ties_by_key\<close>, entries of equal metric are in ascending key order.
\<close>

definition top_n_of :: "nat \<Rightarrow> 'k set \<Rightarrow> ('k \<times> 'v::linorder) list \<Rightarrow> bool" where
  "top_n_of n K t =
     (length t = min n (card K) \<and> distinct (map fst t) \<and> fst ` set t \<subseteq> K \<and>
      (card K \<le> n \<longrightarrow> fst ` set t = K) \<and> sorted_wrt (\<lambda>x y. snd y \<le> snd x) t)"

definition ties_by_key :: "('k::linorder \<times> 'v::linorder) list \<Rightarrow> bool" where
  "ties_by_key t = sorted_wrt (\<lambda>x y. snd y < snd x \<or> (snd x = snd y \<and> fst x < fst y)) t"

section \<open>Grouping and sums\<close>





section \<open>The cleaned set\<close>

lemma fst_main_clean: "map fst (main_clean td df) = map fst (dropna (parse_columns td df))"
  by (simp add: main_clean_def comp_def case_prod_beta)

lemma in_parse_columns:
  "(i, r) \<in> set (parse_columns td df) \<Longrightarrow>
     i < length df \<and> Date r = td (map Date df) i \<and> Amount r = clean_amount (Amount (df ! i))
     \<and> Startup r = Startup (df ! i) \<and> Industry r = Industry (df ! i) \<and> Location r = Location (df ! i)"
  by (auto simp: parse_columns_def in_set_enumerate_eq)

lemma parse_columns_nth:
  "i < length df \<Longrightarrow> \<exists>r. (i, r) \<in> set (parse_columns td df)"
  by (force simp: parse_columns_def in_set_enumerate_eq)

lemma in_main_clean:
  "(i, c) \<in> set (main_clean td df) \<Longrightarrow>
     \<exists>r. (i, r) \<in> set (dropna (parse_columns td df)) \<and> c = add_yearmonth (standardize r)"
  by (auto simp: main_clean_def)

lemma kept1: "(i, c) \<in> set (main_clean td df) \<Longrightarrow> Date c \<noteq> None \<and> \<not> isna_amount (Amount c)"
  by (auto dest!: in_main_clean simp: dropna_def add_yearmonth_def standardize_def)


lemma dropped_iff:
  "i \<in> fst ` set (main_clean td df) \<Longrightarrow>
     i < length df \<and> td (map Date df) i \<noteq> None \<and> \<not> isna_amount (clean_amount (Amount (df ! i)))
     \<and> Startup (df ! i) \<noteq> None \<and> Industry (df ! i) \<noteq> None \<and> Location (df ! i) \<noteq> None"
proof -
  assume "i \<in> fst ` set (main_clean td df)"
  then have "i \<in> set (map fst (dropna (parse_columns td df)))"
    by (simp only: fst_main_clean [symmetric] set_map)
  then obtain r where r: "(i, r) \<in> set (dropna (parse_columns td df))" by auto
  then have p: "(i, r) \<in> set (parse_columns td df)" by (simp add: dropna_def)
  from r have "Date r \<noteq> None \<and> Startup r \<noteq> None \<and> Industry r \<noteq> None \<and> Location r \<noteq> None
      \<and> \<not> isna_amount (Amount r)" by (simp add: dropna_def)
  with in_parse_columns [OF p] show ?thesis by simp
qed

lemma kept_row:
  assumes "i < length df" "td (map Date df) i \<noteq> None" "\<not> isna_amount (clean_amount (Amount (df ! i)))"
    "Startup (df ! i) \<noteq> None" "Industry (df ! i) \<noteq> None" "Location (df ! i) \<noteq> None"
  shows "\<exists>c. (i, c) \<in> set (main_clean td df) \<and> Amount c = clean_amount (Amount (df ! i))"
proof -
  obtain r where p: "(i, r) \<in> set (parse_columns td df)" using parse_columns_nth [OF assms(1)] by blast
  with assms in_parse_columns [OF p] have "(i, r) \<in> set (dropna (parse_columns td df))"
    by (simp add: dropna_def)
  then have "(i, add_yearmonth (standardize r)) \<in> set (main_clean td df)"
    by (force simp: main_clean_def)
  moreover have "Amount (add_yearmonth (standardize r)) = clean_amount (Amount (df ! i))"
    using in_parse_columns [OF p] by (simp add: add_yearmonth_def standardize_def)
  ultimately show ?thesis by blast
qed

lemma kept_fields:
  "(i, c) \<in> set (main_clean td df) \<Longrightarrow> Startup c \<noteq> None \<and> Industry c \<noteq> None \<and> Location c \<noteq> None"
  by (auto dest!: in_main_clean simp: dropna_def add_yearmonth_def standardize_def)

text \<open>
  C2, as the script has it. Every record of the cleaned set has a date that parsed and an
  amount that is neither \<open>pd.NA\<close> nor NaN. The script checks no sign: a raw record whose amount
  normalizes to a negative number, and whose date and three text fields are present, is in
  the cleaned set with that negative amount.
\<close>

theorem cleaned_date_amount:
  "(\<forall>(i, c) \<in> set (main_clean to_datetime df). Date c \<noteq> None \<and> \<not> isna_amount (Amount c)) \<and>
   (\<forall>i a. i < length df \<and> a < 0 \<and> clean_amount (Amount (df ! i)) = Some (Fin a)
        \<and> to_datetime (map Date df) i \<noteq> None
        \<and> Startup (df ! i) \<noteq> None \<and> Industry (df ! i) \<noteq> None \<and> Location (df ! i) \<noteq> None
      \<longrightarrow> (\<exists>c. (i, c) \<in> set (main_clean to_datetime df) \<and> Amount c = Some (Fin a)))"
proof (intro conjI allI impI)
  show "\<forall>(i, c) \<in> set (main_clean to_datetime df). Date c \<noteq> None \<and> \<not> isna_amount (Amount c)"
    using kept1 by blast
next
  fix i a
  assume h: "i < length df \<and> a < 0 \<and> clean_amount (Amount (df ! i)) = Some (Fin a)
        \<and> to_datetime (map Date df) i \<noteq> None
        \<and> Startup (df ! i) \<noteq> None \<and> Industry (df ! i) \<noteq> None \<and> Location (df ! i) \<noteq> None"
  then have "\<not> isna_amount (clean_amount (Amount (df ! i)))" by (simp add: isna_amount_def)
  with h kept_row [of i df to_datetime] show "\<exists>c. (i, c) \<in> set (main_clean to_datetime df) \<and> Amount c = Some (Fin a)"
    by auto
qed

lemma example_negative:
  "main_clean to_datetime_iso [raw_example ''fin tech'' ''-5''] =
     [(0, \<lparr>Date = Some \<lparr>year = 2020, month = 1, day = 5\<rparr>, Startup = Some ''Acme'',
           Industry = Some ''Fin Tech'', Location = Some ''Pune'', Amount = Some (Fin (- 5)),
           Type = Some ''Other'', YearMonth = Some (2020, 1), Investor = None\<rparr>)]"
  by code_simp

theorem cleaned_date_amount_witness:
  "Date (snd (hd (main_clean to_datetime_iso [raw_example ''fin tech'' ''-5'']))) \<noteq> None \<and>
   (0, snd (hd (main_clean to_datetime_iso [raw_example ''fin tech'' ''-5'']))) \<in> set (main_clean to_datetime_iso [raw_example ''fin tech'' ''-5'']) \<and>
   Amount (snd (hd (main_clean to_datetime_iso [raw_example ''fin tech'' ''-5'']))) = Some (Fin (- 5))"
  using cleaned_date_amount [of to_datetime_iso "[raw_example ''fin tech'' ''-5'']"]
  by (simp add: example_negative)

text \<open>
  C2 as stated fails: the raw amount \<open>-5\<close> normalizes to a negative value and the record is in
  the cleaned set.
\<close>

theorem negative_amount_kept:
  "map (\<lambda>(i, c). (i, Amount c)) (main_clean to_datetime_iso [raw_example ''fin tech'' ''-5'']) = [(0, Some (Fin (- 5)))]"
  by (simp add: example_negative)

text \<open>
  C3, as the script has it. \<open>dropna\<close> drops a record whose startup, industry or location cell
  is missing, so every record of the cleaned set has the three of them present. A field of
  white space only is not a missing cell.
\<close>

theorem cleaned_fields_present:
  "(\<forall>(i, c) \<in> set (main_clean to_datetime df). Startup c \<noteq> None \<and> Industry c \<noteq> None \<and> Location c \<noteq> None) \<and>
   (\<forall>i. i < length df \<and> (Startup (df ! i) = None \<or> Industry (df ! i) = None \<or> Location (df ! i) = None)
      \<longrightarrow> i \<notin> fst ` set (main_clean to_datetime df))"
  using kept_fields dropped_iff by blast

theorem cleaned_fields_present_witness:
  "Industry (snd (hd (main_clean to_datetime_iso [raw_example ''fin tech'' ''-5'']))) \<noteq> None \<and>
   0 \<notin> fst ` set (main_clean to_datetime_iso [(raw_example ''x'' ''7'')\<lparr>Location := None\<rparr>])"
  using cleaned_fields_present [of to_datetime_iso "[raw_example ''fin tech'' ''-5'']"]
    cleaned_fields_present [of to_datetime_iso "[(raw_example ''x'' ''7'')\<lparr>Location := None\<rparr>]"]
  by (simp add: example_negative)

text \<open>
  C3 as stated fails: a record whose industry is two spaces is kept, and its industry in the
  cleaned set is the empty string.
\<close>

theorem blank_industry_kept:
  "map (\<lambda>(i, c). (i, Industry c)) (main_clean to_datetime_iso [raw_example ''  '' ''100'']) = [(0, Some [])]"
  by code_simp

text \<open>
  C7. Let \<open>s\<close> be the amount token without \<open>$\<close> and \<open>,\<close>. When \<open>s\<close> is no number, and is no
  number followed by \<open>M\<close> either, \<open>clean_amount\<close> returns \<open>pd.NA\<close> (the \<open>except\<close> branch: nothing
  is raised) and the record is not in the cleaned set.
\<close>

theorem unparseable_amount_dropped:
  assumes "i < length df"
    and "s = remove_char CHR ''$'' (remove_char CHR '','' (str (Amount (df ! i))))"
    and "float s = None"
    and "endswith (upper s) ''M'' \<longrightarrow> float (butlast s) = None"
  shows "clean_amount (Amount (df ! i)) = None \<and> i \<notin> fst ` set (main_clean to_datetime df)"
proof -
  have na: "clean_amount (Amount (df ! i)) = None"
    using assms(2-4) by (simp add: clean_amount_def Let_def)
  then have "isna_amount (clean_amount (Amount (df ! i)))" by (simp add: isna_amount_def)
  with dropped_iff [of i to_datetime df] na show ?thesis by blast
qed

theorem unparseable_amount_dropped_witness:
  "clean_amount (Str ''N/A'') = None \<and> 0 \<notin> fst ` set (main_clean to_datetime_iso [raw_example ''x'' ''N/A''])"
proof -
  have a: "remove_char CHR ''$'' (remove_char CHR '','' ''N/A'') = ''N/A''" by code_simp
  have b: "float ''N/A'' = None" by code_simp
  have c: "\<not> endswith (upper ''N/A'') ''M''" by code_simp
  show ?thesis
    using unparseable_amount_dropped [of 0 "[raw_example ''x'' ''N/A'']" "''N/A''" to_datetime_iso] a b c
    by (simp add: raw_example_def)
qed


section \<open>Investor attribution\<close>


lemma notna_append: "notna (xs @ ys) = notna xs @ notna ys"
  by (induction xs rule: notna.induct) auto






lemma split_not_Nil: "split sep s \<noteq> []"
  by (induction s) (auto split: list.splits)

lemma explode_append: "explode (xs @ ys) = explode xs @ explode ys"
  by (simp add: explode_def)

lemma df_in_append: "df_in (xs @ ys) = df_in xs @ df_in ys"
  by (simp add: df_in_def explode_append)

lemma df_in_Cons: "df_in (r # rs) = df_in [r] @ df_in rs"
  using df_in_append [of "[r]" rs] by simp

lemma df_in_single_Some:
  "Investor r = Some s \<Longrightarrow> df_in [r] = map (\<lambda>p. (Some (strip p), Amount r)) (split CHR '','' s)"
  using split_not_Nil [of "CHR '',''" s]
  by (cases "split CHR '','' s") (simp_all add: df_in_def explode_def)

lemma df_in_single_None: "Investor r = None \<Longrightarrow> df_in [r] = [(None, Amount r)]"
  by (simp add: df_in_def explode_def)





section \<open>Top-N tables\<close>

lemma mset_insert_desc: "mset (insert_desc x ys) = add_mset x (mset ys)"
  by (induction ys) auto

lemma mset_sort_desc: "mset (sort_desc s) = mset s"
  by (induction s) (auto simp: mset_insert_desc)

lemma set_sort_desc: "set (sort_desc s) = set s"
  using mset_sort_desc [of s] by (metis set_mset_mset)

lemma length_sort_desc: "length (sort_desc s) = length s"
  using mset_sort_desc [of s] by (metis size_mset)

lemma set_insert_desc: "set (insert_desc x ys) = insert x (set ys)"
  using mset_insert_desc [of x ys] by (metis set_mset_mset set_mset_add_mset_insert)

lemma sorted_insert_desc:
  "sorted_wrt (\<lambda>x y. snd y \<le> snd x) ys \<Longrightarrow> sorted_wrt (\<lambda>x y. snd y \<le> snd x) (insert_desc x ys)"
  by (induction ys) (auto simp: set_insert_desc)

lemma sorted_sort_desc: "sorted_wrt (\<lambda>x y. snd y \<le> snd x) (sort_desc s)"
  by (induction s) (auto simp: sorted_insert_desc)

lemma ties_insert_desc:
  assumes "ties_by_key ys" and "\<forall>y \<in> set ys. fst x < fst y"
  shows "ties_by_key (insert_desc x ys)"
  using assms unfolding ties_by_key_def
proof (induction ys)
  case Nil
  then show ?case by simp
next
  case (Cons y ys)
  show ?case
  proof (cases "snd y \<le> snd x")
    case True
    have "\<forall>z \<in> set ys. snd z \<le> snd y" using Cons.prems(1) by auto
    with True Cons.prems show ?thesis by (auto simp: le_less)
  next
    case False
    with Cons show ?thesis by (auto simp: set_insert_desc)
  qed
qed

lemma ties_sort_desc: "sorted_wrt (\<lambda>x y. fst x < fst y) s \<Longrightarrow> ties_by_key (sort_desc s)"
proof (induction s)
  case Nil
  then show ?case by (simp add: ties_by_key_def)
next
  case (Cons x s)
  then show ?case by (auto intro!: ties_insert_desc simp: set_sort_desc)
qed

lemma ties_nlargest: "sorted_wrt (\<lambda>x y. fst x < fst y) s \<Longrightarrow> ties_by_key (nlargest n s)"
  using ties_sort_desc [of s] by (simp add: nlargest_def ties_by_key_def sorted_wrt_take)

lemma top_n_nlargest:
  assumes "distinct (map fst s)"
  shows "top_n_of n (fst ` set s) (nlargest n s)"
proof -
  have d: "distinct (map fst (sort_desc s))"
  proof -
    have "mset (map fst (sort_desc s)) = mset (map fst s)"
      by (simp add: mset_sort_desc)
    then show ?thesis using assms mset_eq_imp_distinct_iff by blast
  qed
  have len: "length s = card (fst ` set s)"
    using assms by (metis distinct_card length_map set_map)
  have l: "length (nlargest n s) = min n (card (fst ` set s))"
    by (simp add: nlargest_def length_sort_desc len min.commute)
  have dd: "distinct (map fst (nlargest n s))"
    using d by (simp add: nlargest_def take_map [symmetric])
  have sub: "fst ` set (nlargest n s) \<subseteq> fst ` set s"
    using set_take_subset [of n "sort_desc s"] by (auto simp: nlargest_def set_sort_desc)
  have all: "card (fst ` set s) \<le> n \<Longrightarrow> fst ` set (nlargest n s) = fst ` set s"
    by (simp add: nlargest_def length_sort_desc len set_sort_desc)
  have srt: "sorted_wrt (\<lambda>x y. snd y \<le> snd x) (nlargest n s)"
    by (simp add: nlargest_def sorted_sort_desc sorted_wrt_take)
  show ?thesis unfolding top_n_of_def using l dd sub all srt by blast
qed


lemma keys_groupby_sum: "map fst (groupby_sum kvs) = group_keys kvs"
  by (simp add: groupby_sum_def comp_def)

lemma set_group_keys: "set (group_keys kvs) = set (notna (map fst kvs))"
  by (simp add: group_keys_def)

lemma strict_group_keys: "sorted_wrt (<) (group_keys kvs)"
  by (simp add: group_keys_def strict_sorted_iff)

lemma groupby_sum_key_order: "sorted_wrt (\<lambda>x y. fst x < fst y) (groupby_sum kvs)"
  using strict_group_keys [of kvs] by (simp add: keys_groupby_sum [symmetric] sorted_wrt_map)

lemma distinct_keys_groupby_sum: "distinct (map fst (groupby_sum kvs))"
  using strict_group_keys [of kvs] by (simp add: keys_groupby_sum strict_sorted_iff)

lemma top_n_groupby_sum:
  "top_n_of n (set (notna (map fst kvs))) (nlargest n (groupby_sum kvs))"
proof -
  have "fst ` set (groupby_sum kvs) = set (notna (map fst kvs))"
    using set_group_keys [of kvs] by (simp add: keys_groupby_sum [symmetric])
  with top_n_nlargest [OF distinct_keys_groupby_sum, of n kvs] show ?thesis by simp
qed

lemma set_unique: "set (unique xs) = set xs"
  by (induction xs) auto

lemma distinct_unique: "distinct (unique xs)"
  by (induction xs) (auto simp: set_unique)

lemma keys_value_counts:
  "distinct (map fst (value_counts col))" "fst ` set (value_counts col) = set (notna col)"
proof -
  let ?s = "map (\<lambda>k. (k, count_list (notna col) k)) (unique (notna col))"
  have v: "value_counts col = sort_desc ?s"
    by (simp add: value_counts_def Let_def)
  have m: "mset (map fst (value_counts col)) = mset (map fst ?s)"
    unfolding v by (simp only: mset_map mset_sort_desc)
  have "distinct (map fst ?s)" by (simp add: comp_def distinct_unique)
  with m show "distinct (map fst (value_counts col))" using mset_eq_imp_distinct_iff by blast
  show "fst ` set (value_counts col) = set (notna col)"
    unfolding v by (simp add: set_sort_desc image_image set_unique)
qed

lemma top_n_value_counts: "top_n_of n (set (notna col)) (nlargest n (value_counts col))"
  using top_n_nlargest [OF keys_value_counts(1), of n col] by (simp add: keys_value_counts(2))

text \<open>
  C5, as the script has it. Each of the five top-10 tables has at most ten entries, one per
  key, all keys when there are at most ten, the metric descending. The three tables of summed
  amounts break ties by ascending key: the groups are in key order when the ten largest are
  taken, first occurrence first.
\<close>

theorem top_n_rollups:
  "top_n_of 10 (set (notna (map Industry df))) (by_ind df) \<and> ties_by_key (by_ind df) \<and>
   top_n_of 10 (set (notna (map Startup df))) (top_startups df) \<and> ties_by_key (top_startups df) \<and>
   top_n_of 10 (set (notna (map Location df))) (by_loc df) \<and>
   top_n_of 10 (set (notna (map fst (df_in df)))) (inv_funding df) \<and> ties_by_key (inv_funding df) \<and>
   top_n_of 10 (set (notna (map fst (df_in df)))) (inv_rounds df)"
proof -
  have 1: "top_n_of 10 (set (notna (map Industry df))) (by_ind df)"
    using top_n_groupby_sum [of 10 "map (\<lambda>r. (Industry r, Amount r)) df"] by (simp add: by_ind_def comp_def)
  have 2: "ties_by_key (by_ind df)"
    by (simp add: by_ind_def ties_nlargest groupby_sum_key_order)
  have 3: "top_n_of 10 (set (notna (map Startup df))) (top_startups df)"
    using top_n_groupby_sum [of 10 "map (\<lambda>r. (Startup r, Amount r)) df"] by (simp add: top_startups_def comp_def)
  have 4: "ties_by_key (top_startups df)"
    by (simp add: top_startups_def ties_nlargest groupby_sum_key_order)
  have 5: "top_n_of 10 (set (notna (map Location df))) (by_loc df)"
    by (simp add: by_loc_def top_n_value_counts)
  have 6: "top_n_of 10 (set (notna (map fst (df_in df)))) (inv_funding df)"
    by (simp add: inv_funding_def inv_funding_sum_def top_n_groupby_sum)
  have 7: "ties_by_key (inv_funding df)"
    by (simp add: inv_funding_def inv_funding_sum_def ties_nlargest groupby_sum_key_order)
  have 8: "top_n_of 10 (set (notna (map fst (df_in df)))) (inv_rounds df)"
    by (simp add: inv_rounds_def top_n_value_counts)
  from 1 2 3 4 5 6 7 8 show ?thesis by blast
qed

text \<open>
  C5 as stated fails: with the industries met in the order B, A, C and B and A tied at 100,
  the table lists A before B.
\<close>

theorem ties_not_first_seen:
  "map Industry bac_example = [Some ''B'', Some ''A'', Some ''C''] \<and>
   by_ind bac_example = [(''A'', 100), (''B'', 100), (''C'', 50)]"
  by code_simp

theorem top_n_rollups_witness:
  "card (set (notna (map Industry bac_example))) \<le> 10 \<and>
   fst ` set (by_ind bac_example) = set (notna (map Industry bac_example)) \<and>
   length (by_ind bac_example) = 3"
proof -
  have k: "notna (map Industry bac_example) = [''B'', ''A'', ''C'']" by code_simp
  have c: "card (set [''B'', ''A'', ''C'']) = 3" by code_simp
  show ?thesis using top_n_rollups [of bac_example] by (simp add: top_n_of_def k c)
qed

lemma groupby_sum_skip_None: "groupby_sum (xs @ (None, v) # ys) = groupby_sum (xs @ ys)"
  by (simp add: groupby_sum_def group_keys_def group_def notna_append)

lemma value_counts_skip_None: "value_counts (xs @ None # ys) = value_counts (xs @ ys)"
  by (simp add: value_counts_def notna_append)

text \<open>
  C8, as the script has it. The names of a record are the pieces of its investor field
  between commas, each trimmed, in order, duplicates and empty pieces included. A record
  whose investor field is missing changes neither investor table.
\<close>

theorem investor_pieces:
  "(Investor r = Some s \<longrightarrow> map fst (df_in [r]) = map (\<lambda>p. Some (strip p)) (split CHR '','' s)) \<and>
   (Investor r = None \<longrightarrow>
      inv_funding (pre @ r # post) = inv_funding (pre @ post) \<and>
      inv_rounds (pre @ r # post) = inv_rounds (pre @ post))"
proof (intro conjI impI)
  assume "Investor r = Some s"
  then show "map fst (df_in [r]) = map (\<lambda>p. Some (strip p)) (split CHR '','' s)"
    by (simp add: df_in_single_Some comp_def)
next
  assume n: "Investor r = None"
  have e: "df_in (pre @ r # post) = df_in pre @ (None, Amount r) # df_in post"
    using df_in_append [of pre "r # post"] df_in_Cons [of r post] df_in_single_None [OF n] by simp
  have e2: "df_in (pre @ post) = df_in pre @ df_in post"
    by (rule df_in_append)
  show "inv_funding (pre @ r # post) = inv_funding (pre @ post)"
    unfolding inv_funding_def inv_funding_sum_def e e2 groupby_sum_skip_None ..
  have "map fst (df_in pre @ (None, Amount r) # df_in post) = map fst (df_in pre) @ None # map fst (df_in post)"
    by simp
  then show "inv_rounds (pre @ r # post) = inv_rounds (pre @ post)"
    unfolding inv_rounds_def e e2 by (simp add: value_counts_skip_None)
qed

text \<open>
  C8 as stated fails: the empty piece of \<open>A,,B\<close> and a blank investor field both give the
  empty string as an investor key.
\<close>

theorem empty_investor_key:
  "inv_funding [csv_example ''Fintech'' 100 (Some ''A,,B'')] = [([], 100), (''A'', 100), (''B'', 100)] \<and>
   inv_rounds [csv_example ''Fintech'' 100 (Some '' '')] = [([], 1)]"
  by code_simp

theorem investor_pieces_witness:
  "map fst (df_in [csv_example ''Fintech'' 100 (Some ''X, Y,X'')]) = [Some ''X'', Some ''Y'', Some ''X''] \<and>
   inv_funding ([] @ csv_example ''Fintech'' 100 None # []) = inv_funding ([] @ []) \<and>
   inv_rounds ([] @ csv_example ''Fintech'' 100 None # []) = inv_rounds ([] @ [])"
proof -
  have a: "strip ''X'' = ''X''" "strip '' Y'' = ''Y''"
    by code_simp+
  show ?thesis
    using investor_pieces [of "csv_example ''Fintech'' 100 (Some ''X, Y,X'')" "''X, Y,X''"]
      investor_pieces [of "csv_example ''Fintech'' 100 None" "[]" "[]" "[]"]
    by (simp add: a csv_example_def)
qed


section \<open>Investor credit\<close>








lemma example_xxy:
  "inv_funding [csv_example ''Fintech'' 100 (Some ''X,X,Y'')] = [(''X'', 200), (''Y'', 100)]"
  by code_simp




section \<open>The by-period table\<close>





















section \<open>Required columns\<close>

lemma names_assign_list:
  "map fst (assign name col df) = (if name \<in> set (map fst df) then map fst df else map fst df @ [name])"
proof -
  have "map fst (map (\<lambda>(n, c). if n = name then (n, col) else (n, c)) df) = map fst df"
    by (induction df) auto
  then show ?thesis by (simp add: assign_def)
qed

lemma names_assign: "set (map fst (assign name col df)) = insert name (set (map fst df))"
  by (auto simp: names_assign_list)

lemma names_select: "map fst (map (\<lambda>(n, c). (n, select keep c)) df) = map fst df"
  by (induction df) auto

lemma map_of_None_names: "map_of df k = None \<longleftrightarrow> k \<notin> set (map fst df)"
  by (simp add: map_of_eq_None_iff)

text \<open>
  C9, as the script has it. When a required column is missing the run fails as a whole: it
  never goes on to the dashboard. A missing \<open>Date\<close> column fails at once, before any row
  processing. The error of the required-columns check itself comes after the dates were
  parsed, the amounts coerced and the rows dropped.
\<close>

theorem missing_column_fails:
  assumes "\<not> set required_cols \<subseteq> set (map fst df)"
  shows "(\<exists>e. snd (app_load to_datetime to_numeric df) = Inl e) \<and>
         (''Date'' \<notin> set (map fst df) \<longrightarrow> app_load to_datetime to_numeric df = ([], Inl (KeyError ''Date''))) \<and>
         (snd (app_load to_datetime to_numeric df) = Inl (Stop ''CSV must contain columns'') \<longrightarrow>
            fst (app_load to_datetime to_numeric df) = [ParseDates, CoerceAmounts, DropRows])"
proof (intro conjI impI)
  show "\<exists>e. snd (app_load to_datetime to_numeric df) = Inl e"
  proof (cases "map_of df ''Date''")
    case None
    then show ?thesis by (simp add: app_load_def)
  next
    case (Some col)
    then have d: "''Date'' \<in> set (map fst df)" using map_of_None_names [of df "''Date''"] by simp
    define dates where "dates = map (\<lambda>i. case to_datetime col i of None \<Rightarrow> Missing | Some d \<Rightarrow> Stamp d) [0..<length col]"
    define df1 where "df1 = assign ''Date'' dates df"
    have n1: "set (map fst df1) = set (map fst df)"
      unfolding df1_def names_assign using d by (rule insert_absorb)
    show ?thesis
    proof (cases "list_all isna dates")
      case True
      then show ?thesis using Some by (simp add: app_load_def Let_def dates_def)
    next
      case False
      show ?thesis
      proof (cases "map_of df1 ''Amount''")
        case None
        then show ?thesis using Some False
          by (simp add: app_load_def Let_def dates_def df1_def)
      next
        case (Some acol)
        then have "''Amount'' \<in> set (map fst df1)" using map_of_None_names [of df1 "''Amount''"] by simp
        then have "insert ''Amount'' (set (map fst df1)) = set (map fst df1)"
          by (rule insert_absorb)
        then have "set (map fst (assign ''Amount'' amounts df1)) = set (map fst df)" for amounts
          unfolding names_assign n1 .
        then have "\<not> set required_cols \<subseteq> set (map fst (map (\<lambda>(n, c). (n, select keep c)) (assign ''Amount'' amounts df1)))"
          for amounts keep
          using assms by (simp only: names_select) simp
        then show ?thesis
          unfolding app_load_def Let_def
          by (simp only: \<open>map_of df ''Date'' = Some col\<close> option.case dates_def [symmetric]
              df1_def [symmetric] False if_False Some if_True snd_conv) simp
      qed
    qed
  qed
next
  assume "''Date'' \<notin> set (map fst df)"
  then have "map_of df ''Date'' = None" by (simp add: map_of_None_names)
  then show "app_load to_datetime to_numeric df = ([], Inl (KeyError ''Date''))"
    by (simp add: app_load_def)
next
  assume "snd (app_load to_datetime to_numeric df) = Inl (Stop ''CSV must contain columns'')"
  then show "fst (app_load to_datetime to_numeric df) = [ParseDates, CoerceAmounts, DropRows]"
    by (auto simp: app_load_def Let_def split: option.splits if_splits)
qed

lemma upload_example_run:
  "app_load to_datetime_example to_numeric_example upload_example =
     ([ParseDates, CoerceAmounts, DropRows], Inl (Stop ''CSV must contain columns''))"
  by code_simp

lemma upload_example_lacks: "\<not> set required_cols \<subseteq> set (map fst upload_example)"
  by (simp add: required_cols_def upload_example_def)

text \<open>
  C9 as stated fails: for a frame without a \<open>Startup\<close> column the error is reported after
  date parsing, amount coercion and row dropping.
\<close>

theorem check_after_row_processing:
  "map fst upload_example = [''Date'', ''Industry'', ''Location'', ''Amount'', ''Type'', ''YearMonth''] \<and>
   app_load to_datetime_example to_numeric_example upload_example =
     ([ParseDates, CoerceAmounts, DropRows], Inl (Stop ''CSV must contain columns''))"
  by (simp add: upload_example_run) (simp add: upload_example_def)

theorem missing_column_fails_witness:
  "\<not> set required_cols \<subseteq> set (map fst upload_example) \<and>
   fst (app_load to_datetime_example to_numeric_example upload_example) = [ParseDates, CoerceAmounts, DropRows] \<and>
   app_load to_datetime_example to_numeric_example (tl upload_example) = ([], Inl (KeyError ''Date''))"
proof -
  note t = missing_column_fails [OF upload_example_lacks, of to_datetime_example to_numeric_example]
  have 1: "fst (app_load to_datetime_example to_numeric_example upload_example) = [ParseDates, CoerceAmounts, DropRows]"
    using t by (simp add: upload_example_run)
  have l: "\<not> set required_cols \<subseteq> set (map fst (tl upload_example))"
    by (simp add: required_cols_def upload_example_def)
  have d: "''Date'' \<notin> set (map fst (tl upload_example))"
    by (simp add: upload_example_def)
  have 2: "app_load to_datetime_example to_numeric_example (tl upload_example) = ([], Inl (KeyError ''Date''))"
    using missing_column_fails [OF l, of to_datetime_example to_numeric_example] d by blast
  from upload_example_lacks 1 2 show ?thesis by (intro conjI)
qed


end
